theory Spec2Isabelle
  imports Complex_Main "HOL-Library.Finite_Map"
begin

section \<open>Product catalogue handlers (src/handlers.ts)\<close>

text \<open>
  The five Lambda handlers of \<^verbatim>\<open>handlers.ts\<close> are embedded as functions from the
  request event and the current contents of the DynamoDB table to the outcome of the
  promise the handler returns, together with the table afterwards.

  \<^item> A JavaScript exception is a value of \<open>js_error\<close>; a handler whose promise is
    rejected returns \<open>Inl\<close> of that error, one that resolves returns \<open>Inr\<close> of the
    response object.
  \<^item> \<^verbatim>\<open>JSON.parse\<close> and \<^verbatim>\<open>JSON.stringify\<close> are built-ins of the language. They are
    the fields of the \<open>runtime\<close> record every handler takes, so every theorem holds
    for whatever the two functions compute.
  \<^item> \<^verbatim>\<open>v4()\<close> draws a random identifier; the identifier it returns is an argument of
    \<open>createProduct\<close>.
  \<^item> A promise that is rejected while nothing awaits it and no handler is attached
    ends the process, as Node.js does by default: the run then has no response.
  \<^item> \<^verbatim>\<open>console.log\<close>, \<^verbatim>\<open>console.info\<close> and \<^verbatim>\<open>logger\<close> only write to the log and are
    left out.
\<close>

subsection \<open>JavaScript values\<close>

text \<open>
  Objects are finite maps from property names to values: no handler depends on the
  order of the properties. \<open>JUndefined\<close> is the value of a variable that was declared
  and never assigned, and of a property that is not there.
\<close>

datatype jsval =
    JUndefined
  | JNull
  | JBool bool
  | JNum rat
  | JStr string
  | JArr "jsval list"
  | JObj "(string, jsval) fmap"

text \<open>Property access \<^verbatim>\<open>v.k\<close> on a value that is not \<^verbatim>\<open>undefined\<close> or \<^verbatim>\<open>null\<close>.\<close>

fun get_prop :: "jsval \<Rightarrow> string \<Rightarrow> jsval" where
  "get_prop (JObj m) k = (case fmlookup m k of None \<Rightarrow> JUndefined | Some v \<Rightarrow> v)"
| "get_prop _ k = JUndefined"

text \<open>The decimal numeral of an array index, the property name of an element.\<close>

definition digit_char :: "nat \<Rightarrow> char" where
  "digit_char d = char_of (48 + d)"

function index_key :: "nat \<Rightarrow> string" where
  "index_key n = (if n < 10 then [digit_char n] else index_key (n div 10) @ [digit_char (n mod 10)])"
  by pat_completeness auto
termination
  by (relation "measure (\<lambda>n. n)") auto

text \<open>
  The own enumerable properties that an object spread \<^verbatim>\<open>{...v}\<close> copies: those of an
  object, the indexed elements of an array, the indexed characters of a string, and
  nothing for \<^verbatim>\<open>undefined\<close>, \<^verbatim>\<open>null\<close>, a number or a boolean.
\<close>

fun own_props :: "jsval \<Rightarrow> (string, jsval) fmap" where
  "own_props (JObj m) = m"
| "own_props (JArr xs) = fmap_of_list (zip (map index_key [0..<length xs]) xs)"
| "own_props (JStr s) = fmap_of_list (zip (map index_key [0..<length s]) (map (\<lambda>c. JStr [c]) s))"
| "own_props _ = fmempty"

subsection \<open>Errors, events and responses\<close>

text \<open>
  The exceptions the handlers can meet. \<open>ValidationError\<close> is yup's, with its
  \<^verbatim>\<open>errors\<close> array; \<open>SyntaxError\<close> is the one \<^verbatim>\<open>JSON.parse\<close> throws, with its message;
  \<open>HttpError\<close> is the class of the source (status code, body, and the message the
  constructor computes); \<open>TypeError\<close> is a property read on \<^verbatim>\<open>undefined\<close>; \<open>StoreError\<close>
  is a request the DynamoDB client rejects. \<open>UnhandledRejection e\<close> is not thrown by
  any statement: it is the end of a run in which a promise that nothing awaits and
  that has no handler is rejected with \<open>e\<close>. Node.js by default ends the process on
  such a rejection, so the handler returns no response.
\<close>

datatype js_error =
    ValidationError "string list"
  | SyntaxError string
  | HttpError nat jsval string
  | TypeError string
  | StoreError string
  | UnhandledRejection js_error

record APIGatewayProxyEvent =
  body :: "string option"
  pathParameters :: "(string, string) fmap option"

text \<open>
  The response object. \<open>headers\<close> is \<open>None\<close> when the object literal has no
  \<^verbatim>\<open>headers\<close> property; \<open>body\<close> is \<open>None\<close> when \<^verbatim>\<open>JSON.stringify\<close> returned
  \<^verbatim>\<open>undefined\<close>.
\<close>

record APIGatewayProxyResult =
  statusCode :: nat
  headers :: "(string \<times> string) list option"
  body :: "string option"

record runtime =
  JSON_parse :: "string \<Rightarrow> string + jsval"
  JSON_stringify :: "jsval \<Rightarrow> string option"

definition headers :: "(string \<times> string) list" where
  "headers = [(''content-type'', ''application/json'')]"

text \<open>
  \<^verbatim>\<open>event.body as string\<close> handed to \<^verbatim>\<open>JSON.parse\<close>: the cast does nothing at run time,
  and \<^verbatim>\<open>JSON.parse\<close> converts a \<^verbatim>\<open>null\<close> body to the text \<^verbatim>\<open>null\<close>.
\<close>

definition body_text :: "APIGatewayProxyEvent \<Rightarrow> string" where
  "body_text event = (case APIGatewayProxyEvent.body event of None \<Rightarrow> ''null'' | Some s \<Rightarrow> s)"

text \<open>\<^verbatim>\<open>event.pathParameters?.id\<close>\<close>

definition path_id :: "APIGatewayProxyEvent \<Rightarrow> jsval" where
  "path_id event =
     (case pathParameters event of
        None \<Rightarrow> JUndefined
      | Some ps \<Rightarrow> (case fmlookup ps ''id'' of None \<Rightarrow> JUndefined | Some s \<Rightarrow> JStr s))"

subsection \<open>The schema and its validation\<close>

datatype yup_type = YupString | YupNumber | YupBool

text \<open>The four fields of \<^verbatim>\<open>schema\<close>, each \<^verbatim>\<open>required()\<close>.\<close>

definition schema :: "(string \<times> yup_type) list" where
  "schema =
     [(''name'', YupString), (''description'', YupString),
      (''price'', YupNumber), (''available'', YupBool)]"

text \<open>
  Modelled from the spec: the validation engine of the yup library, which is not part
  of the repository. Section 4.1 of the specification: the validator verifies
  presence and type of every field of the schema, a string field being a non-empty
  string (section 3); it fails with a ValidationError carrying the messages
  of all the fields that are missing or mistyped, and succeeds otherwise. The texts
  of the messages are the library's; the specification fixes only that there is one
  for each such field.
\<close>

definition type_name :: "yup_type \<Rightarrow> string" where
  "type_name t = (case t of YupString \<Rightarrow> ''string'' | YupNumber \<Rightarrow> ''number'' | YupBool \<Rightarrow> ''boolean'')"

definition required_message :: "string \<Rightarrow> string" where
  "required_message f = f @ '' is a required field''"

definition type_message :: "string \<Rightarrow> yup_type \<Rightarrow> string" where
  "type_message f t = f @ '' must be a `'' @ type_name t @ ''` type''"

text \<open>
  Modelled from the spec: the message for one field, if there is one. A field that is
  absent, or an empty string where a string is required, is missing; a value of
  another type than the schema's is mistyped.
\<close>

fun field_error :: "string \<Rightarrow> yup_type \<Rightarrow> jsval \<Rightarrow> string option" where
  "field_error f t JUndefined = Some (required_message f)"
| "field_error f YupString (JStr s) = (if s = [] then Some (required_message f) else None)"
| "field_error f YupNumber (JNum n) = None"
| "field_error f YupBool (JBool b) = None"
| "field_error f t v = Some (type_message f t)"

text \<open>
  Modelled from the spec: the messages of all the fields of the schema that are missing
  or mistyped in the value, in the order of the schema. A value that is not an object
  has none of the fields.
\<close>

definition schema_errors :: "(string \<times> yup_type) list \<Rightarrow> jsval \<Rightarrow> string list" where
  "schema_errors sch v = List.map_filter (\<lambda>(f, t). field_error f t (get_prop v f)) sch"

text \<open>
  Modelled from the spec: \<^verbatim>\<open>schema.validate(value, {abortEarly})\<close>, as the outcome of the
  promise it returns. Validation is non-short-circuiting when \<^verbatim>\<open>abortEarly\<close> is false,
  the option both callers pass: all messages are collected. With \<^verbatim>\<open>abortEarly\<close> it
  stops at the first.
\<close>

definition schema_validate :: "(string \<times> yup_type) list \<Rightarrow> bool \<Rightarrow> jsval \<Rightarrow> js_error + unit" where
  "schema_validate sch abortEarly v =
     (let errs = schema_errors sch v in
      if errs = [] then Inr ()
      else Inl (ValidationError (if abortEarly then take 1 errs else errs)))"

subsection \<open>The table\<close>

text \<open>
  Modelled from the spec: the DynamoDB document client, an external service, as
  section 4.2 of the specification describes it: one collection of records keyed by
  \<^verbatim>\<open>productID\<close>, a string. The table is the list of its records. The limits of the
  service itself (sizes, empty keys, timeouts) are not modelled.
\<close>

type_synonym item = "(string, jsval) fmap"

type_synonym table = "item list"

definition has_key :: "string \<Rightarrow> item \<Rightarrow> bool" where
  "has_key k it = (fmlookup it ''productID'' = Some (JStr k))"

text \<open>
  Modelled from the spec: \<^verbatim>\<open>get\<close> returns the record with the key, or nothing; a request
  whose key is not a string is rejected.
\<close>

definition docClient_get :: "table \<Rightarrow> jsval \<Rightarrow> js_error + item option" where
  "docClient_get tbl key =
     (case key of
        JStr k \<Rightarrow> Inr (find (has_key k) tbl)
      | _ \<Rightarrow> Inl (StoreError ''ValidationException''))"

text \<open>
  Modelled from the spec: \<^verbatim>\<open>put\<close> inserts the record, or overwrites the one with the
  same \<^verbatim>\<open>productID\<close>; a record whose \<^verbatim>\<open>productID\<close> is not a string is rejected.
\<close>

definition docClient_put :: "table \<Rightarrow> item \<Rightarrow> js_error + table" where
  "docClient_put tbl it =
     (case get_prop (JObj it) ''productID'' of
        JStr k \<Rightarrow> Inr (filter (\<lambda>x. \<not> has_key k x) tbl @ [it])
      | _ \<Rightarrow> Inl (StoreError ''ValidationException''))"

text \<open>
  Modelled from the spec: \<^verbatim>\<open>delete\<close> removes the record with the key and signals nothing
  when there is none.
\<close>

definition docClient_delete :: "table \<Rightarrow> jsval \<Rightarrow> js_error + table" where
  "docClient_delete tbl key =
     (case key of
        JStr k \<Rightarrow> Inr (filter (\<lambda>x. \<not> has_key k x) tbl)
      | _ \<Rightarrow> Inl (StoreError ''ValidationException''))"

text \<open>Modelled from the spec: \<^verbatim>\<open>scan\<close> returns all the records and their number.\<close>

definition docClient_scan :: "table \<Rightarrow> jsval" where
  "docClient_scan tbl =
     JObj (fmap_of_list
       [(''Items'', JArr (map JObj tbl)),
        (''Count'', JNum (of_nat (length tbl))),
        (''ScannedCount'', JNum (of_nat (length tbl)))])"

subsection \<open>Error classification\<close>

text \<open>
  \<^verbatim>\<open>new HttpError(statusCode, body)\<close>: the constructor passes \<^verbatim>\<open>JSON.stringify(body)\<close> to
  \<^verbatim>\<open>Error\<close>, whose message is the empty string when given \<^verbatim>\<open>undefined\<close>.
\<close>

definition new_HttpError :: "runtime \<Rightarrow> nat \<Rightarrow> jsval \<Rightarrow> js_error" where
  "new_HttpError rt sc b =
     HttpError sc b (case JSON_stringify rt b of None \<Rightarrow> [] | Some s \<Rightarrow> s)"

text \<open>\<open>Inr\<close> is the response \<^verbatim>\<open>handleError\<close> returns, \<open>Inl\<close> the error it throws again.\<close>

definition handleError :: "runtime \<Rightarrow> js_error \<Rightarrow> js_error + APIGatewayProxyResult" where
  \<open>handleError rt e =
     (case e of
        ValidationError errors \<Rightarrow>
          Inr \<lparr>statusCode = 400, headers = Some headers,
               body = JSON_stringify rt (JObj (fmupd ''errors'' (JArr (map JStr errors)) fmempty))\<rparr>
      | SyntaxError message \<Rightarrow>
          Inr \<lparr>statusCode = 400, headers = Some headers,
               body = JSON_stringify rt
                 (JObj (fmupd ''error'' (JStr (''Invalid request body fomrat: "'' @ message @ ''"'')) fmempty))\<rparr>
      | HttpError sc b message \<Rightarrow>
          Inr \<lparr>statusCode = sc, headers = Some headers, body = Some message\<rparr>
      | _ \<Rightarrow> Inl e)\<close>

subsection \<open>The handlers\<close>

definition fetchProductById :: "runtime \<Rightarrow> table \<Rightarrow> jsval \<Rightarrow> js_error + item" where
  "fetchProductById rt tbl id' =
     (case docClient_get tbl id' of
        Inl e \<Rightarrow> Inl e
      | Inr None \<Rightarrow> Inl (new_HttpError rt 404 (JObj (fmupd ''error'' (JStr ''not found'') fmempty)))
      | Inr (Some it) \<Rightarrow> Inr it)"

text \<open>
  \<open>v4\<close> is the identifier the call \<^verbatim>\<open>v4()\<close> returns in this invocation. The whole body
  is inside \<^verbatim>\<open>try\<close>, and the \<^verbatim>\<open>catch\<close> returns what \<^verbatim>\<open>handleError\<close> returns.
\<close>

definition createProduct ::
  "runtime \<Rightarrow> string \<Rightarrow> APIGatewayProxyEvent \<Rightarrow> table \<Rightarrow> (js_error + APIGatewayProxyResult) \<times> table" where
  "createProduct rt v4 event tbl =
     (case JSON_parse rt (body_text event) of
        Inl message \<Rightarrow> (handleError rt (SyntaxError message), tbl)
      | Inr reqBody \<Rightarrow>
          (case schema_validate schema False reqBody of
             Inl err \<Rightarrow> (handleError rt err, tbl)
           | Inr _ \<Rightarrow>
               (let product = fmupd ''productID'' (JStr v4) fmempty ++\<^sub>f own_props reqBody in
                case docClient_put tbl product of
                  Inl err \<Rightarrow> (handleError rt err, tbl)
                | Inr tbl' \<Rightarrow>
                    (Inr \<lparr>statusCode = 201, headers = Some headers,
                          body = JSON_stringify rt (JObj product)\<rparr>, tbl'))))"

text \<open>
  The \<^verbatim>\<open>catch\<close> calls \<^verbatim>\<open>handleError\<close> and drops what it returns; when \<^verbatim>\<open>handleError\<close>
  throws, the handler's promise is rejected; otherwise \<^verbatim>\<open>product\<close> is still
  \<^verbatim>\<open>undefined\<close> and control reaches the \<^verbatim>\<open>return\<close>.
\<close>

definition getProduct ::
  "runtime \<Rightarrow> APIGatewayProxyEvent \<Rightarrow> table \<Rightarrow> (js_error + APIGatewayProxyResult) \<times> table" where
  "getProduct rt event tbl =
     (let id' = path_id event in
      case (case fetchProductById rt tbl id' of
              Inr it \<Rightarrow> Inr (JObj it)
            | Inl err \<Rightarrow> (case handleError rt err of Inl e \<Rightarrow> Inl e | Inr _ \<Rightarrow> Inr JUndefined)) of
        Inl e \<Rightarrow> (Inl e, tbl)
      | Inr product \<Rightarrow>
          (Inr \<lparr>statusCode = 200, headers = Some headers, body = JSON_stringify rt product\<rparr>, tbl))"

text \<open>
  The first \<^verbatim>\<open>try\<close> block. \<^verbatim>\<open>schema.validate\<close> is called without \<^verbatim>\<open>await\<close>: the promise
  it returns is held by nothing, and its rejection is not thrown inside the block.
  The \<^verbatim>\<open>catch\<close> sees only the SyntaxError of \<^verbatim>\<open>JSON.parse\<close>, and drops what
  \<^verbatim>\<open>handleError\<close> returns. The result is the value of \<^verbatim>\<open>reqBody\<close> after the block,
  with the outcome of the promise that was dropped; when \<^verbatim>\<open>JSON.parse\<close> throws,
  \<^verbatim>\<open>schema.validate\<close> is not called and no promise is rejected.
\<close>

definition update_reqBody ::
  "runtime \<Rightarrow> APIGatewayProxyEvent \<Rightarrow> js_error + jsval \<times> (js_error + unit)" where
  "update_reqBody rt event =
     (case JSON_parse rt (body_text event) of
        Inl message \<Rightarrow>
          (case handleError rt (SyntaxError message) of
             Inl e \<Rightarrow> Inl e
           | Inr _ \<Rightarrow> Inr (JUndefined, Inr ()))
      | Inr reqBody \<Rightarrow> Inr (reqBody, schema_validate schema False reqBody))"

text \<open>
  The rest of the handler. It first suspends at \<^verbatim>\<open>await fetchProductById(id)\<close>, where
  the request to the store is in flight. When the dropped promise of the validation
  is rejected, the rejection is unhandled and the process ends there, before the
  store answers: no response, and no write. Otherwise the second \<^verbatim>\<open>try\<close> block and
  what follows it run: \<^verbatim>\<open>outputProduct.productID\<close> throws a TypeError when
  \<^verbatim>\<open>outputProduct\<close> is \<^verbatim>\<open>undefined\<close>, and neither it nor the \<^verbatim>\<open>put\<close> is inside a \<^verbatim>\<open>try\<close>.
\<close>

definition updateProduct ::
  "runtime \<Rightarrow> APIGatewayProxyEvent \<Rightarrow> table \<Rightarrow> (js_error + APIGatewayProxyResult) \<times> table" where
  "updateProduct rt event tbl =
     (case update_reqBody rt event of
        Inl e \<Rightarrow> (Inl e, tbl)
      | Inr (reqBody, dropped) \<Rightarrow>
          (let id' = path_id event in
           case dropped of
             Inl rejection \<Rightarrow> (Inl (UnhandledRejection rejection), tbl)
           | Inr _ \<Rightarrow>
               (case (case fetchProductById rt tbl id' of
                        Inr it \<Rightarrow> Inr (JObj it)
                      | Inl err \<Rightarrow>
                          (case handleError rt err of Inl e \<Rightarrow> Inl e | Inr _ \<Rightarrow> Inr JUndefined)) of
                  Inl e \<Rightarrow> (Inl e, tbl)
                | Inr outputProduct \<Rightarrow>
                    (if outputProduct = JUndefined
                     then (Inl (TypeError ''Cannot read properties of undefined (reading 'productID')''), tbl)
                     else
                       (let product =
                              fmupd ''productID'' (get_prop outputProduct ''productID'') (own_props reqBody) in
                        case docClient_put tbl product of
                          Inl err \<Rightarrow> (Inl err, tbl)
                        | Inr tbl' \<Rightarrow>
                            (Inr \<lparr>statusCode = 201, headers = Some headers,
                                  body = JSON_stringify rt (JObj product)\<rparr>, tbl'))))))"

text \<open>
  The fetch and the delete are in one \<^verbatim>\<open>try\<close>; its \<^verbatim>\<open>catch\<close> drops what \<^verbatim>\<open>handleError\<close>
  returns. The object returned has no \<^verbatim>\<open>headers\<close> property.
\<close>

definition deleteProduct ::
  "runtime \<Rightarrow> APIGatewayProxyEvent \<Rightarrow> table \<Rightarrow> (js_error + APIGatewayProxyResult) \<times> table" where
  "deleteProduct rt event tbl =
     (let id' = path_id event in
      case (case fetchProductById rt tbl id' of
              Inl err \<Rightarrow> (case handleError rt err of Inl e \<Rightarrow> Inl e | Inr _ \<Rightarrow> Inr (JUndefined, tbl))
            | Inr it \<Rightarrow>
                (case docClient_delete tbl (get_prop (JObj it) ''productID'') of
                   Inl err \<Rightarrow> (case handleError rt err of Inl e \<Rightarrow> Inl e | Inr _ \<Rightarrow> Inr (JObj it, tbl))
                 | Inr tbl' \<Rightarrow> Inr (JObj it, tbl'))) of
        Inl e \<Rightarrow> (Inl e, tbl)
      | Inr (productToDelete, tbl') \<Rightarrow>
          (Inr \<lparr>statusCode = 204, headers = None,
                body = JSON_stringify rt
                  (JObj (fmupd ''product'' productToDelete
                          (fmupd ''result'' (JStr ''delete completed'') fmempty)))\<rparr>, tbl'))"

definition listProduct ::
  "runtime \<Rightarrow> APIGatewayProxyEvent \<Rightarrow> table \<Rightarrow> (js_error + APIGatewayProxyResult) \<times> table" where
  "listProduct rt event tbl =
     (let output = docClient_scan tbl in
      (Inr \<lparr>statusCode = 200, headers = Some headers, body = JSON_stringify rt output\<rparr>, tbl))"

subsection \<open>The validator's contract in the words of the specification\<close>

text \<open>
  A field is valid when it is present and of the type of the schema; a string field
  is a non-empty string. \<open>invalid_fields\<close> lists the fields of the schema that are
  missing or mistyped in a payload.
\<close>

definition field_valid :: "yup_type \<Rightarrow> jsval \<Rightarrow> bool" where
  "field_valid t v =
     (case t of
        YupString \<Rightarrow> (case v of JStr s \<Rightarrow> s \<noteq> [] | _ \<Rightarrow> False)
      | YupNumber \<Rightarrow> (case v of JNum n \<Rightarrow> True | _ \<Rightarrow> False)
      | YupBool \<Rightarrow> (case v of JBool b \<Rightarrow> True | _ \<Rightarrow> False))"

definition invalid_fields :: "(string \<times> yup_type) list \<Rightarrow> jsval \<Rightarrow> (string \<times> yup_type) list" where
  "invalid_fields sch v = filter (\<lambda>(f, t). \<not> field_valid t (get_prop v f)) sch"

subsection \<open>Requests used as examples\<close>

text \<open>
  The request bodies of the examples and the values \<^verbatim>\<open>JSON.parse\<close> returns on them.
  \<open>example_parse\<close> is \<^verbatim>\<open>JSON.parse\<close> on these four texts and on one that is not JSON; it
  is used only to instantiate the theorems, which hold for every \<open>runtime\<close>.
\<close>

definition pen :: item where
  "pen = fmap_of_list
     [(''name'', JStr ''Pen''), (''description'', JStr ''Blue pen''),
      (''price'', JNum (3 / 2)), (''available'', JBool True)]"

definition pen_body :: string where
  \<open>pen_body = ''{"name":"Pen","description":"Blue pen","price":1.5,"available":true}''\<close>

definition pen_mine_body :: string where
  \<open>pen_mine_body =
     ''{"productID":"mine","name":"Pen","description":"Blue pen","price":1.5,"available":true}''\<close>

definition partial_body :: string where
  \<open>partial_body = ''{"name":"Pen","price":"free"}''\<close>

definition example_parse :: "string \<Rightarrow> string + jsval" where
  "example_parse s =
     (if s = pen_body then Inr (JObj pen)
      else if s = pen_mine_body then Inr (JObj (fmupd ''productID'' (JStr ''mine'') pen))
      else if s = partial_body
        then Inr (JObj (fmap_of_list [(''name'', JStr ''Pen''), (''price'', JStr ''free'')]))
      else if s = ''{}'' then Inr (JObj fmempty)
      else Inl ''Unexpected end of JSON input'')"

definition request :: "string option \<Rightarrow> string \<Rightarrow> APIGatewayProxyEvent" where
  "request b i = \<lparr>APIGatewayProxyEvent.body = b, pathParameters = Some (fmupd ''id'' i fmempty)\<rparr>"

section \<open>Properties\<close>

subsection \<open>Auxiliary facts\<close>

lemma find_has_key: "find (has_key k) tbl = Some it \<Longrightarrow> fmlookup it ''productID'' = Some (JStr k)"
  by (induction tbl) (auto simp: has_key_def split: if_splits)

lemma find_after_put: "P y \<Longrightarrow> find P (filter (\<lambda>x. \<not> P x) xs @ [y]) = Some y"
  by (induction xs) auto

lemma handleError_HttpError:
  "handleError rt (HttpError sc b m) = Inr \<lparr>statusCode = sc, headers = Some headers, body = Some m\<rparr>"
  by (simp add: handleError_def)

lemma fetch_absent:
  "find (has_key i) tbl = None \<Longrightarrow>
   fetchProductById rt tbl (JStr i) =
     Inl (new_HttpError rt 404 (JObj (fmupd ''error'' (JStr ''not found'') fmempty)))"
  by (simp add: fetchProductById_def docClient_get_def)

lemma fetch_present:
  "find (has_key i) tbl = Some it \<Longrightarrow> fetchProductById rt tbl (JStr i) = Inr it"
  by (simp add: fetchProductById_def docClient_get_def)

lemma path_id_request: "path_id (request b i) = JStr i"
  by (simp add: path_id_def request_def)

lemma body_text_request: "body_text (request (Some s) i) = s"
  by (simp add: body_text_def request_def)

text \<open>
  What the classifier makes of the error of a missing record: the 404 response of the
  specification. The handlers below that receive it do not return it.
\<close>

lemma handleError_not_found:
  "find (has_key i) tbl = None \<Longrightarrow>
   \<exists>e. fetchProductById rt tbl (JStr i) = Inl e \<and>
     (\<exists>r. handleError rt e = Inr r \<and> statusCode r = 404 \<and>
       APIGatewayProxyResult.headers r = Some headers)"
  by (simp add: fetch_absent new_HttpError_def handleError_HttpError)

lemma field_error_None_iff: "field_error f t v = None \<longleftrightarrow> field_valid t v"
  by (cases "(f, t, v)" rule: field_error.cases) (auto simp: field_valid_def split: yup_type.splits)

text \<open>The validator reports one message for each field that is missing or mistyped.\<close>

lemma length_schema_errors: "length (schema_errors sch v) = length (invalid_fields sch v)"
proof (induction sch)
  case Nil
  show ?case by (simp add: schema_errors_def invalid_fields_def)
next
  case (Cons ft sch)
  obtain f t where ft: "ft = (f, t)" by (cases ft)
  show ?case
  proof (cases "field_error f t (get_prop v f)")
    case None
    with Cons ft show ?thesis
      using field_error_None_iff [of f t "get_prop v f"]
      by (simp add: schema_errors_def invalid_fields_def)
  next
    case (Some m)
    with Cons ft show ?thesis
      using field_error_None_iff [of f t "get_prop v f"]
      by (simp add: schema_errors_def invalid_fields_def)
  qed
qed

lemma schema_errors_Nil_iff: "schema_errors sch v = [] \<longleftrightarrow> invalid_fields sch v = []"
  using length_schema_errors [of sch v] by (metis length_0_conv)

lemma schema_validate_ok_iff:
  "schema_validate sch abortEarly v = Inr () \<longleftrightarrow> invalid_fields sch v = []"
  by (simp add: schema_validate_def Let_def schema_errors_Nil_iff)

text \<open>With \<^verbatim>\<open>abortEarly\<close> the same validator would report the first message only.\<close>

lemma schema_validate_abortEarly:
  "schema_errors sch v = m # ms \<Longrightarrow> schema_validate sch True v = Inl (ValidationError [m])"
  by (simp add: schema_validate_def)

text \<open>A payload that passes the validation is an object.\<close>

lemma valid_is_object:
  assumes "schema_validate schema False v = Inr ()"
  obtains p where "v = JObj p"
proof (cases v)
  case (JObj p)
  then show ?thesis using that by simp
qed (use assms in \<open>simp_all add: schema_validate_def schema_errors_def schema_def\<close>)

lemma schema_validate_rejects:
  "invalid_fields sch v \<noteq> [] \<Longrightarrow>
   schema_validate sch False v = Inl (ValidationError (schema_errors sch v))"
  by (simp add: schema_validate_def schema_errors_Nil_iff)

lemma update_reqBody_unparseable:
  "JSON_parse rt (body_text event) = Inl message \<Longrightarrow>
   update_reqBody rt event = Inr (JUndefined, Inr ())"
  by (simp add: update_reqBody_def handleError_def)

lemma update_reqBody_parsed:
  "JSON_parse rt (body_text event) = Inr reqBody \<Longrightarrow>
   update_reqBody rt event = Inr (reqBody, schema_validate schema False reqBody)"
  by (simp add: update_reqBody_def)

text \<open>
  What \<open>updateProduct\<close> does once the validation has not rejected: with an id that is
  not in the table, and with one that is.
\<close>

lemma updateProduct_absent:
  assumes "update_reqBody rt event = Inr (reqBody, Inr ())"
    and "path_id event = JStr i" and "find (has_key i) tbl = None"
  shows "updateProduct rt event tbl =
    (Inl (TypeError ''Cannot read properties of undefined (reading 'productID')''), tbl)"
  using assms
  by (simp add: updateProduct_def fetch_absent new_HttpError_def handleError_HttpError)

lemma updateProduct_present:
  assumes "update_reqBody rt event = Inr (reqBody, Inr ())"
    and "path_id event = JStr i" and "find (has_key i) tbl = Some orig"
  shows "updateProduct rt event tbl =
    (Inr \<lparr>statusCode = 201, headers = Some headers,
          body = JSON_stringify rt (JObj (fmupd ''productID'' (JStr i) (own_props reqBody)))\<rparr>,
     filter (\<lambda>x. \<not> has_key i x) tbl @ [fmupd ''productID'' (JStr i) (own_props reqBody)])"
proof -
  have key: "fmlookup orig ''productID'' = Some (JStr i)"
    using assms(3) by (rule find_has_key)
  show ?thesis
    using assms key by (simp add: updateProduct_def fetch_present docClient_put_def Let_def)
qed

lemma updateProduct_rejected:
  assumes "update_reqBody rt event = Inr (reqBody, Inl rejection)"
  shows "updateProduct rt event tbl = (Inl (UnhandledRejection rejection), tbl)"
  using assms by (simp add: updateProduct_def)

subsection \<open>Reading, updating and deleting an id that is not in the table\<close>

text \<open>
  C1. The claim: for an id that is absent from the table, \<open>getProduct\<close> returns status
  404 with the body \<^verbatim>\<open>{"error":"not found"}\<close>, never a 200. The code does otherwise: the
  \<^verbatim>\<open>catch\<close> calls \<^verbatim>\<open>handleError\<close> without returning its result, so for every such id
  the handler returns status 200, with the body \<^verbatim>\<open>JSON.stringify(undefined)\<close>.
\<close>

theorem getProduct_absent_id_returns_200:
  assumes "path_id event = JStr i" and "find (has_key i) tbl = None"
  shows "getProduct rt event tbl =
    (Inr \<lparr>statusCode = 200, headers = Some headers, body = JSON_stringify rt JUndefined\<rparr>, tbl)"
  using assms by (simp add: getProduct_def fetch_absent new_HttpError_def handleError_HttpError)

theorem getProduct_absent_id_returns_200_witness:
  "\<forall>rt. getProduct rt (request None ''p1'') [fmupd ''productID'' (JStr ''p2'') pen] =
    (Inr \<lparr>statusCode = 200, headers = Some headers, body = JSON_stringify rt JUndefined\<rparr>,
     [fmupd ''productID'' (JStr ''p2'') pen])"
proof
  fix rt
  have absent: "find (has_key ''p1'') [fmupd ''productID'' (JStr ''p2'') pen] = None"
    by (simp add: has_key_def)
  show "getProduct rt (request None ''p1'') [fmupd ''productID'' (JStr ''p2'') pen] =
    (Inr \<lparr>statusCode = 200, headers = Some headers, body = JSON_stringify rt JUndefined\<rparr>,
     [fmupd ''productID'' (JStr ''p2'') pen])"
    using path_id_request absent by (rule getProduct_absent_id_returns_200)
qed

text \<open>
  C2. The claim: for an id that is absent from the table, \<open>updateProduct\<close> returns
  status 404 and leaves the table unchanged. The table is indeed unchanged, but no
  response is returned, whatever the request body is. When the body does not parse or
  passes the validation, the 404 response of \<^verbatim>\<open>handleError\<close> is dropped, \<^verbatim>\<open>outputProduct\<close>
  stays \<^verbatim>\<open>undefined\<close>, and reading its \<^verbatim>\<open>productID\<close> throws a TypeError that rejects the
  handler's promise. When the body fails the validation, the run has ended before on
  the unhandled rejection.
\<close>

theorem updateProduct_absent_id_throws:
  assumes "path_id event = JStr i" and "find (has_key i) tbl = None"
  shows "updateProduct rt event tbl =
    (Inl (case JSON_parse rt (body_text event) of
            Inl message \<Rightarrow> TypeError ''Cannot read properties of undefined (reading 'productID')''
          | Inr reqBody \<Rightarrow>
              if invalid_fields schema reqBody = []
              then TypeError ''Cannot read properties of undefined (reading 'productID')''
              else UnhandledRejection (ValidationError (schema_errors schema reqBody))), tbl)"
proof (cases "JSON_parse rt (body_text event)")
  case (Inl message)
  then have "update_reqBody rt event = Inr (JUndefined, Inr ())"
    by (rule update_reqBody_unparseable)
  then show ?thesis
    using assms Inl by (simp add: updateProduct_absent)
next
  case (Inr reqBody)
  then have rb: "update_reqBody rt event = Inr (reqBody, schema_validate schema False reqBody)"
    by (rule update_reqBody_parsed)
  show ?thesis
  proof (cases "invalid_fields schema reqBody = []")
    case True
    then have "schema_validate schema False reqBody = Inr ()"
      by (simp add: schema_validate_ok_iff)
    with rb have "update_reqBody rt event = Inr (reqBody, Inr ())" by simp
    then show ?thesis
      using assms Inr True by (simp add: updateProduct_absent)
  next
    case False
    then have "schema_validate schema False reqBody =
        Inl (ValidationError (schema_errors schema reqBody))"
      by (rule schema_validate_rejects)
    with rb have "update_reqBody rt event =
        Inr (reqBody, Inl (ValidationError (schema_errors schema reqBody)))" by simp
    then show ?thesis
      using Inr False by (simp add: updateProduct_rejected)
  qed
qed

theorem updateProduct_absent_id_throws_witness:
  "\<forall>str. updateProduct \<lparr>JSON_parse = example_parse, JSON_stringify = str\<rparr>
      (request (Some pen_body) ''p1'') [fmupd ''productID'' (JStr ''p2'') pen] =
    (Inl (TypeError ''Cannot read properties of undefined (reading 'productID')''),
     [fmupd ''productID'' (JStr ''p2'') pen])"
proof
  fix str
  define rt where "rt = \<lparr>JSON_parse = example_parse, JSON_stringify = str\<rparr>"
  have absent: "find (has_key ''p1'') [fmupd ''productID'' (JStr ''p2'') pen] = None"
    by (simp add: has_key_def)
  have parse: "JSON_parse rt (body_text (request (Some pen_body) ''p1'')) = Inr (JObj pen)"
    by (simp add: rt_def body_text_request example_parse_def)
  have valid: "invalid_fields schema (JObj pen) = []"
    by (simp add: invalid_fields_def schema_def field_valid_def pen_def)
  from updateProduct_absent_id_throws [OF path_id_request absent, of rt "Some pen_body"]
  show "updateProduct \<lparr>JSON_parse = example_parse, JSON_stringify = str\<rparr>
      (request (Some pen_body) ''p1'') [fmupd ''productID'' (JStr ''p2'') pen] =
    (Inl (TypeError ''Cannot read properties of undefined (reading 'productID')''),
     [fmupd ''productID'' (JStr ''p2'') pen])"
    by (simp add: parse valid) (simp add: rt_def)
qed

text \<open>
  C9. The claim: for an id that is absent from the table, \<open>deleteProduct\<close> returns
  status 404, not a success status. The code does otherwise: the 404 response of
  \<^verbatim>\<open>handleError\<close> is dropped and the handler returns status 204 with the confirmation
  body, in which \<^verbatim>\<open>product\<close> is \<^verbatim>\<open>undefined\<close>; the table is unchanged.
\<close>

theorem deleteProduct_absent_id_returns_204:
  assumes "path_id event = JStr i" and "find (has_key i) tbl = None"
  shows "deleteProduct rt event tbl =
    (Inr \<lparr>statusCode = 204, headers = None,
          body = JSON_stringify rt
            (JObj (fmupd ''product'' JUndefined (fmupd ''result'' (JStr ''delete completed'') fmempty)))\<rparr>,
     tbl)"
  using assms by (simp add: deleteProduct_def fetch_absent new_HttpError_def handleError_HttpError)

theorem deleteProduct_absent_id_returns_204_witness:
  "\<forall>rt. deleteProduct rt (request None ''p1'') [fmupd ''productID'' (JStr ''p2'') pen] =
    (Inr \<lparr>statusCode = 204, headers = None,
          body = JSON_stringify rt
            (JObj (fmupd ''product'' JUndefined (fmupd ''result'' (JStr ''delete completed'') fmempty)))\<rparr>,
     [fmupd ''productID'' (JStr ''p2'') pen])"
proof
  fix rt
  have absent: "find (has_key ''p1'') [fmupd ''productID'' (JStr ''p2'') pen] = None"
    by (simp add: has_key_def)
  show "deleteProduct rt (request None ''p1'') [fmupd ''productID'' (JStr ''p2'') pen] =
    (Inr \<lparr>statusCode = 204, headers = None,
          body = JSON_stringify rt
            (JObj (fmupd ''product'' JUndefined (fmupd ''result'' (JStr ''delete completed'') fmempty)))\<rparr>,
     [fmupd ''productID'' (JStr ''p2'') pen])"
    using path_id_request absent by (rule deleteProduct_absent_id_returns_204)
qed

subsection \<open>Response headers\<close>

text \<open>The responses of the other four handlers carry the fixed headers.\<close>

lemma handleError_headers:
  "handleError rt e = Inr r \<Longrightarrow> APIGatewayProxyResult.headers r = Some headers"
  by (auto simp: handleError_def split: js_error.splits)

lemma createProduct_headers:
  "createProduct rt v4 event tbl = (Inr r, tbl') \<Longrightarrow> APIGatewayProxyResult.headers r = Some headers"
  by (auto simp: createProduct_def Let_def split: sum.splits dest: handleError_headers)

lemma getProduct_headers:
  "getProduct rt event tbl = (Inr r, tbl') \<Longrightarrow> APIGatewayProxyResult.headers r = Some headers"
  by (auto simp: getProduct_def Let_def split: sum.splits)

lemma updateProduct_headers:
  "updateProduct rt event tbl = (Inr r, tbl') \<Longrightarrow> APIGatewayProxyResult.headers r = Some headers"
  by (auto simp: updateProduct_def Let_def split: sum.splits if_splits)

lemma listProduct_headers:
  "listProduct rt event tbl = (Inr r, tbl') \<Longrightarrow> APIGatewayProxyResult.headers r = Some headers"
  by (auto simp: listProduct_def Let_def)

text \<open>
  C10. The claim: every response of every handler includes the headers
  \<^verbatim>\<open>{"content-type": "application/json"}\<close>. It holds for the four handlers above and
  fails for \<open>deleteProduct\<close>, whose only \<^verbatim>\<open>return\<close> builds an object with \<^verbatim>\<open>statusCode\<close>
  and \<^verbatim>\<open>body\<close> alone: no response of \<open>deleteProduct\<close> has headers.
\<close>

theorem deleteProduct_response_without_headers:
  "deleteProduct rt event tbl = (Inr r, tbl') \<Longrightarrow> APIGatewayProxyResult.headers r = None"
  by (auto simp: deleteProduct_def Let_def split: sum.splits prod.splits)

theorem deleteProduct_response_without_headers_witness:
  "\<forall>rt. \<exists>r. deleteProduct rt (request None ''p2'') [fmupd ''productID'' (JStr ''p2'') pen] = (Inr r, []) \<and>
     statusCode r = 204 \<and> APIGatewayProxyResult.headers r = None"
proof
  fix rt
  have run: "deleteProduct rt (request None ''p2'') [fmupd ''productID'' (JStr ''p2'') pen] =
    (Inr \<lparr>statusCode = 204, headers = None,
          body = JSON_stringify rt
            (JObj (fmupd ''product'' (JObj (fmupd ''productID'' (JStr ''p2'') pen))
              (fmupd ''result'' (JStr ''delete completed'') fmempty)))\<rparr>, [])"
    by (simp add: deleteProduct_def path_id_request fetchProductById_def docClient_get_def
        docClient_delete_def has_key_def)
  from deleteProduct_response_without_headers [OF run] run
  show "\<exists>r. deleteProduct rt (request None ''p2'') [fmupd ''productID'' (JStr ''p2'') pen] = (Inr r, []) \<and>
     statusCode r = 204 \<and> APIGatewayProxyResult.headers r = None"
    by simp
qed

subsection \<open>Validation\<close>

text \<open>
  C6. For every create request whose payload is missing or mistypes one or more of the
  four fields of the schema, \<open>createProduct\<close> returns status 400 with the body
  \<^verbatim>\<open>{errors: [...]}\<close> that holds all the messages of the validator, one for each field
  that is missing or mistyped and not only the first, and the table is unchanged.
\<close>

theorem createProduct_reports_every_invalid_field:
  assumes "JSON_parse rt (body_text event) = Inr payload"
    and "invalid_fields schema payload \<noteq> []"
  shows "createProduct rt v4 event tbl =
      (Inr \<lparr>statusCode = 400, headers = Some headers,
            body = JSON_stringify rt
              (JObj (fmupd ''errors'' (JArr (map JStr (schema_errors schema payload))) fmempty))\<rparr>, tbl) \<and>
    length (schema_errors schema payload) = length (invalid_fields schema payload)"
proof -
  have "schema_errors schema payload \<noteq> []"
    using assms(2) by (simp add: schema_errors_Nil_iff)
  then have "createProduct rt v4 event tbl =
      (Inr \<lparr>statusCode = 400, headers = Some headers,
            body = JSON_stringify rt
              (JObj (fmupd ''errors'' (JArr (map JStr (schema_errors schema payload))) fmempty))\<rparr>, tbl)"
    using assms(1) by (simp add: createProduct_def schema_validate_def handleError_def)
  then show ?thesis by (simp add: length_schema_errors)
qed

theorem createProduct_reports_every_invalid_field_witness:
  "\<forall>str. createProduct \<lparr>JSON_parse = example_parse, JSON_stringify = str\<rparr> ''id1''
      \<lparr>APIGatewayProxyEvent.body = Some partial_body, pathParameters = None\<rparr> [] =
      (Inr \<lparr>statusCode = 400, headers = Some headers,
            body = str (JObj (fmupd ''errors''
              (JArr [JStr ''description is a required field'',
                     JStr ''price must be a `number` type'',
                     JStr ''available is a required field'']) fmempty))\<rparr>, []) \<and>
    length (invalid_fields schema (JObj (fmap_of_list [(''name'', JStr ''Pen''), (''price'', JStr ''free'')]))) = 3"
proof
  fix str
  define payload where "payload = JObj (fmap_of_list [(''name'', JStr ''Pen''), (''price'', JStr ''free'')])"
  define event where "event = \<lparr>APIGatewayProxyEvent.body = Some partial_body, pathParameters = None\<rparr>"
  have parse: "JSON_parse \<lparr>JSON_parse = example_parse, JSON_stringify = str\<rparr> (body_text event) = Inr payload"
    by (simp add: event_def body_text_def example_parse_def payload_def partial_body_def pen_body_def
        pen_mine_body_def)
  have errs: "schema_errors schema payload =
      [''description is a required field'', ''price must be a `number` type'',
       ''available is a required field'']"
    by (simp add: schema_errors_def schema_def payload_def required_message_def
        type_message_def type_name_def)
  have bad: "invalid_fields schema payload \<noteq> []"
    by (simp add: invalid_fields_def schema_def payload_def field_valid_def)
  from createProduct_reports_every_invalid_field [OF parse bad, of "''id1''" "[]"] errs
  show "createProduct \<lparr>JSON_parse = example_parse, JSON_stringify = str\<rparr> ''id1''
      \<lparr>APIGatewayProxyEvent.body = Some partial_body, pathParameters = None\<rparr> [] =
      (Inr \<lparr>statusCode = 400, headers = Some headers,
            body = str (JObj (fmupd ''errors''
              (JArr [JStr ''description is a required field'',
                     JStr ''price must be a `number` type'',
                     JStr ''available is a required field'']) fmempty))\<rparr>, []) \<and>
    length (invalid_fields schema (JObj (fmap_of_list [(''name'', JStr ''Pen''), (''price'', JStr ''free'')]))) = 3"
    by (simp add: event_def payload_def)
qed

text \<open>
  C8. The claim: for a body that is not parseable, \<open>createProduct\<close> returns status 400
  with the body \<^verbatim>\<open>{error: "Invalid request body format: <detail>"}\<close> and nothing is
  persisted. Status and table are as claimed; the text of the error is not: the
  code spells it \<^verbatim>\<open>Invalid request body fomrat: \<close> and puts the message of the parse
  error between double quotes.
\<close>

theorem createProduct_unparseable_body:
  assumes "JSON_parse rt (body_text event) = Inl message"
  shows \<open>createProduct rt v4 event tbl =
      (Inr \<lparr>statusCode = 400, headers = Some headers,
            body = JSON_stringify rt
              (JObj (fmupd ''error''
                (JStr (''Invalid request body fomrat: "'' @ message @ ''"'')) fmempty))\<rparr>, tbl)\<close>
  using assms by (simp add: createProduct_def handleError_def)

theorem createProduct_unparseable_body_witness:
  \<open>\<forall>str. createProduct \<lparr>JSON_parse = example_parse, JSON_stringify = str\<rparr> ''id1''
      \<lparr>APIGatewayProxyEvent.body = Some ''{'', pathParameters = None\<rparr> [] =
      (Inr \<lparr>statusCode = 400, headers = Some headers,
            body = str (JObj (fmupd ''error''
              (JStr ''Invalid request body fomrat: "Unexpected end of JSON input"'') fmempty))\<rparr>, [])\<close>
proof
  fix str
  have parse: "JSON_parse \<lparr>JSON_parse = example_parse, JSON_stringify = str\<rparr>
      (body_text \<lparr>APIGatewayProxyEvent.body = Some ''{'', pathParameters = None\<rparr>) =
      Inl ''Unexpected end of JSON input''"
    by (simp add: body_text_def example_parse_def partial_body_def pen_body_def pen_mine_body_def)
  from createProduct_unparseable_body [OF parse, of "''id1''" "[]"]
  show \<open>createProduct \<lparr>JSON_parse = example_parse, JSON_stringify = str\<rparr> ''id1''
      \<lparr>APIGatewayProxyEvent.body = Some ''{'', pathParameters = None\<rparr> [] =
      (Inr \<lparr>statusCode = 400, headers = Some headers,
            body = str (JObj (fmupd ''error''
              (JStr ''Invalid request body fomrat: "Unexpected end of JSON input"'') fmempty))\<rparr>, [])\<close>
    by simp
qed

subsection \<open>The identifier of the stored record\<close>

text \<open>
  C4. The claim: the \<^verbatim>\<open>productID\<close> of the record that \<open>createProduct\<close> persists and
  returns is the generated identifier, and a \<^verbatim>\<open>productID\<close> in the payload is ignored.
  The code does otherwise: the record is \<^verbatim>\<open>{productID: v4(), ...reqBody}\<close>, where the
  properties of the payload are copied after the generated identifier and overwrite
  it. For every valid payload that has a string \<^verbatim>\<open>productID\<close>, the record persisted and
  returned is the payload itself, under the payload's identifier, and the generated
  one appears nowhere.
\<close>

theorem createProduct_payload_productID_wins:
  assumes "JSON_parse rt (body_text event) = Inr payload"
    and "schema_validate schema False payload = Inr ()"
    and "get_prop payload ''productID'' = JStr k"
  shows "createProduct rt v4 event tbl =
      (Inr \<lparr>statusCode = 201, headers = Some headers, body = JSON_stringify rt payload\<rparr>,
       filter (\<lambda>x. \<not> has_key k x) tbl @ [own_props payload])"
proof -
  obtain p where p: "payload = JObj p" using assms(2) by (rule valid_is_object)
  have pid: "fmlookup p ''productID'' = Some (JStr k)"
    using assms(3) by (simp add: p split: option.splits)
  have product: "fmupd ''productID'' (JStr v4) fmempty ++\<^sub>f p = p"
    by (rule fmap_ext) (use pid in \<open>auto simp: fmdomI\<close>)
  have put: "docClient_put tbl p = Inr (filter (\<lambda>x. \<not> has_key k x) tbl @ [p])"
    using pid by (simp add: docClient_put_def)
  show ?thesis
    using assms(1,2) put by (simp add: createProduct_def product p)
qed

theorem createProduct_payload_productID_wins_witness:
  "\<forall>str. createProduct \<lparr>JSON_parse = example_parse, JSON_stringify = str\<rparr> ''generated''
      \<lparr>APIGatewayProxyEvent.body = Some pen_mine_body, pathParameters = None\<rparr> [] =
      (Inr \<lparr>statusCode = 201, headers = Some headers,
            body = str (JObj (fmupd ''productID'' (JStr ''mine'') pen))\<rparr>,
       [fmupd ''productID'' (JStr ''mine'') pen])"
proof
  fix str
  define payload where "payload = JObj (fmupd ''productID'' (JStr ''mine'') pen)"
  define event where "event = \<lparr>APIGatewayProxyEvent.body = Some pen_mine_body, pathParameters = None\<rparr>"
  have parse: "JSON_parse \<lparr>JSON_parse = example_parse, JSON_stringify = str\<rparr> (body_text event) = Inr payload"
    by (simp add: event_def body_text_def example_parse_def payload_def pen_body_def pen_mine_body_def)
  have valid: "schema_validate schema False payload = Inr ()"
    by (simp add: schema_validate_def schema_errors_def schema_def payload_def pen_def)
  have pid: "get_prop payload ''productID'' = JStr ''mine''"
    by (simp add: payload_def)
  from createProduct_payload_productID_wins [OF parse valid pid, of "''generated''" "[]"]
  show "createProduct \<lparr>JSON_parse = example_parse, JSON_stringify = str\<rparr> ''generated''
      \<lparr>APIGatewayProxyEvent.body = Some pen_mine_body, pathParameters = None\<rparr> [] =
      (Inr \<lparr>statusCode = 201, headers = Some headers,
            body = str (JObj (fmupd ''productID'' (JStr ''mine'') pen))\<rparr>,
       [fmupd ''productID'' (JStr ''mine'') pen])"
    by (simp add: event_def payload_def)
qed

text \<open>
  C5. For every update request on an id that is in the table, the record that
  \<open>updateProduct\<close> persists and returns carries the \<^verbatim>\<open>productID\<close> of the stored record
  (the id of the request), whatever \<^verbatim>\<open>productID\<close> the body brings: the handler returns
  status 201 with that record, which is the one the table holds for the id
  afterwards. This is so for every body that passes the validation and for every body
  that does not parse. For a body that fails the validation no record is persisted or
  returned: the run ends on the unhandled rejection and the table is unchanged.
\<close>

theorem updateProduct_keeps_productID:
  assumes "path_id event = JStr i" and "find (has_key i) tbl = Some orig"
  shows "(\<exists>product tbl'.
      updateProduct rt event tbl =
        (Inr \<lparr>statusCode = 201, headers = Some headers, body = JSON_stringify rt (JObj product)\<rparr>, tbl') \<and>
      fmlookup product ''productID'' = fmlookup orig ''productID'' \<and>
      fmlookup orig ''productID'' = Some (JStr i) \<and>
      tbl' = filter (\<lambda>x. \<not> has_key i x) tbl @ [product] \<and>
      find (has_key i) tbl' = Some product) \<or>
    (\<exists>reqBody.
      JSON_parse rt (body_text event) = Inr reqBody \<and>
      invalid_fields schema reqBody \<noteq> [] \<and>
      updateProduct rt event tbl =
        (Inl (UnhandledRejection (ValidationError (schema_errors schema reqBody))), tbl))"
proof -
  have key: "fmlookup orig ''productID'' = Some (JStr i)"
    using assms(2) by (rule find_has_key)
  have replaced: ?thesis if rb: "update_reqBody rt event = Inr (reqBody, Inr ())" for reqBody
  proof -
    define product where "product = fmupd ''productID'' (JStr i) (own_props reqBody)"
    have hk: "has_key i product" by (simp add: has_key_def product_def)
    have run: "updateProduct rt event tbl =
        (Inr \<lparr>statusCode = 201, headers = Some headers, body = JSON_stringify rt (JObj product)\<rparr>,
         filter (\<lambda>x. \<not> has_key i x) tbl @ [product])"
      unfolding product_def using rb assms by (rule updateProduct_present)
    have same: "fmlookup product ''productID'' = fmlookup orig ''productID''"
      using key by (simp add: product_def)
    have held: "find (has_key i) (filter (\<lambda>x. \<not> has_key i x) tbl @ [product]) = Some product"
      using hk by (rule find_after_put)
    from run same key held show ?thesis by blast
  qed
  show ?thesis
  proof (cases "JSON_parse rt (body_text event)")
    case (Inl message)
    then have "update_reqBody rt event = Inr (JUndefined, Inr ())"
      by (rule update_reqBody_unparseable)
    then show ?thesis by (rule replaced)
  next
    case (Inr reqBody)
    then have rb: "update_reqBody rt event = Inr (reqBody, schema_validate schema False reqBody)"
      by (rule update_reqBody_parsed)
    show ?thesis
    proof (cases "invalid_fields schema reqBody = []")
      case True
      then have "schema_validate schema False reqBody = Inr ()"
        by (simp add: schema_validate_ok_iff)
      with rb have "update_reqBody rt event = Inr (reqBody, Inr ())" by simp
      then show ?thesis by (rule replaced)
    next
      case False
      then have "schema_validate schema False reqBody =
          Inl (ValidationError (schema_errors schema reqBody))"
        by (rule schema_validate_rejects)
      with rb have "update_reqBody rt event =
          Inr (reqBody, Inl (ValidationError (schema_errors schema reqBody)))" by simp
      then have "updateProduct rt event tbl =
          (Inl (UnhandledRejection (ValidationError (schema_errors schema reqBody))), tbl)"
        by (rule updateProduct_rejected)
      with Inr False show ?thesis by blast
    qed
  qed
qed

theorem updateProduct_keeps_productID_witness:
  "\<forall>str.
    (\<exists>product tbl'.
      updateProduct \<lparr>JSON_parse = example_parse, JSON_stringify = str\<rparr>
        (request (Some pen_mine_body) ''p2'') [fmupd ''productID'' (JStr ''p2'') fmempty] =
        (Inr \<lparr>statusCode = 201, headers = Some headers, body = str (JObj product)\<rparr>, tbl') \<and>
      fmlookup product ''productID'' = Some (JStr ''p2'') \<and>
      find (has_key ''p2'') tbl' = Some product) \<and>
    updateProduct \<lparr>JSON_parse = example_parse, JSON_stringify = str\<rparr>
      (request (Some pen_mine_body) ''p2'') [fmupd ''productID'' (JStr ''p2'') fmempty] =
      (Inr \<lparr>statusCode = 201, headers = Some headers,
            body = str (JObj (fmupd ''productID'' (JStr ''p2'') pen))\<rparr>,
       [fmupd ''productID'' (JStr ''p2'') pen])"
proof (rule allI, rule conjI)
  fix str
  define rt where "rt = \<lparr>JSON_parse = example_parse, JSON_stringify = str\<rparr>"
  define tbl :: table where "tbl = [fmupd ''productID'' (JStr ''p2'') fmempty]"
  define event where "event = request (Some pen_mine_body) ''p2''"
  have present: "find (has_key ''p2'') tbl = Some (fmupd ''productID'' (JStr ''p2'') fmempty)"
    by (simp add: tbl_def has_key_def)
  have parse: "JSON_parse rt (body_text event) = Inr (JObj (fmupd ''productID'' (JStr ''mine'') pen))"
    by (simp add: rt_def event_def body_text_request example_parse_def pen_body_def pen_mine_body_def)
  have valid: "invalid_fields schema (JObj (fmupd ''productID'' (JStr ''mine'') pen)) = []"
    by (simp add: invalid_fields_def schema_def field_valid_def pen_def)
  have pid: "path_id event = JStr ''p2''"
    unfolding event_def by (rule path_id_request)
  from updateProduct_keeps_productID [OF pid present, of rt] parse valid
  have "\<exists>product tbl'.
      updateProduct rt event tbl =
        (Inr \<lparr>statusCode = 201, headers = Some headers, body = JSON_stringify rt (JObj product)\<rparr>, tbl') \<and>
      fmlookup product ''productID'' = Some (JStr ''p2'') \<and>
      find (has_key ''p2'') tbl' = Some product"
    by auto
  then show "\<exists>product tbl'.
      updateProduct \<lparr>JSON_parse = example_parse, JSON_stringify = str\<rparr>
        (request (Some pen_mine_body) ''p2'') [fmupd ''productID'' (JStr ''p2'') fmempty] =
        (Inr \<lparr>statusCode = 201, headers = Some headers, body = str (JObj product)\<rparr>, tbl') \<and>
      fmlookup product ''productID'' = Some (JStr ''p2'') \<and>
      find (has_key ''p2'') tbl' = Some product"
    by (simp add: rt_def tbl_def event_def)
next
  fix str
  define rt where "rt = \<lparr>JSON_parse = example_parse, JSON_stringify = str\<rparr>"
  define event where "event = request (Some pen_mine_body) ''p2''"
  have present: "find (has_key ''p2'') [fmupd ''productID'' (JStr ''p2'') fmempty] =
      Some (fmupd ''productID'' (JStr ''p2'') fmempty)"
    by (simp add: has_key_def)
  have parse: "JSON_parse rt (body_text event) = Inr (JObj (fmupd ''productID'' (JStr ''mine'') pen))"
    by (simp add: rt_def event_def body_text_request example_parse_def pen_body_def pen_mine_body_def)
  have valid: "schema_validate schema False (JObj (fmupd ''productID'' (JStr ''mine'') pen)) = Inr ()"
    by (simp add: schema_validate_def schema_errors_def schema_def pen_def)
  have rb: "update_reqBody rt event = Inr (JObj (fmupd ''productID'' (JStr ''mine'') pen), Inr ())"
    using update_reqBody_parsed [OF parse] valid by simp
  have pid: "path_id event = JStr ''p2''"
    unfolding event_def by (rule path_id_request)
  from updateProduct_present [OF rb pid present]
  show "updateProduct \<lparr>JSON_parse = example_parse, JSON_stringify = str\<rparr>
      (request (Some pen_mine_body) ''p2'') [fmupd ''productID'' (JStr ''p2'') fmempty] =
      (Inr \<lparr>statusCode = 201, headers = Some headers,
            body = str (JObj (fmupd ''productID'' (JStr ''p2'') pen))\<rparr>,
       [fmupd ''productID'' (JStr ''p2'') pen])"
    by (simp add: rt_def event_def has_key_def)
qed

subsection \<open>Update with a body that fails validation\<close>

text \<open>No response of \<open>updateProduct\<close> has another status than 201.\<close>

lemma updateProduct_response_is_201:
  "updateProduct rt event tbl = (Inr r, tbl') \<Longrightarrow> statusCode r = 201"
  by (auto simp: updateProduct_def Let_def split: sum.splits prod.splits if_splits)

text \<open>
  C3. The claim: for a body that fails the validation, \<open>updateProduct\<close> returns status
  400 and performs no put. No put is performed, but no 400 is returned either:
  \<^verbatim>\<open>schema.validate\<close> is called without \<^verbatim>\<open>await\<close>, so the ValidationError never reaches
  the \<^verbatim>\<open>catch\<close> (whose result is dropped in any case). For every such body, every id
  and every table, the run ends on the unhandled rejection of the ValidationError,
  with no response and the table unchanged.
\<close>

theorem updateProduct_invalid_body_no_response:
  assumes "JSON_parse rt (body_text event) = Inr reqBody"
    and "invalid_fields schema reqBody \<noteq> []"
  shows "updateProduct rt event tbl =
    (Inl (UnhandledRejection (ValidationError (schema_errors schema reqBody))), tbl)"
proof -
  have "schema_validate schema False reqBody = Inl (ValidationError (schema_errors schema reqBody))"
    using assms(2) by (rule schema_validate_rejects)
  then have "update_reqBody rt event =
      Inr (reqBody, Inl (ValidationError (schema_errors schema reqBody)))"
    using update_reqBody_parsed [OF assms(1)] by simp
  then show ?thesis by (simp add: updateProduct_def)
qed

theorem updateProduct_invalid_body_no_response_witness:
  "\<forall>str. updateProduct \<lparr>JSON_parse = example_parse, JSON_stringify = str\<rparr>
      (request (Some ''{}'') ''p2'') [fmupd ''productID'' (JStr ''p2'') pen] =
      (Inl (UnhandledRejection (ValidationError
         [''name is a required field'', ''description is a required field'',
          ''price is a required field'', ''available is a required field''])),
       [fmupd ''productID'' (JStr ''p2'') pen])"
proof
  fix str
  define rt where "rt = \<lparr>JSON_parse = example_parse, JSON_stringify = str\<rparr>"
  have parse: "JSON_parse rt (body_text (request (Some ''{}'') ''p2'')) = Inr (JObj fmempty)"
    by (simp add: rt_def body_text_request example_parse_def pen_body_def pen_mine_body_def
        partial_body_def)
  have bad: "invalid_fields schema (JObj fmempty) \<noteq> []"
    by (simp add: invalid_fields_def schema_def field_valid_def)
  have errs: "schema_errors schema (JObj fmempty) =
      [''name is a required field'', ''description is a required field'',
       ''price is a required field'', ''available is a required field'']"
    by (simp add: schema_errors_def schema_def required_message_def)
  from updateProduct_invalid_body_no_response
    [OF parse bad, of "[fmupd ''productID'' (JStr ''p2'') pen]"] errs
  show "updateProduct \<lparr>JSON_parse = example_parse, JSON_stringify = str\<rparr>
      (request (Some ''{}'') ''p2'') [fmupd ''productID'' (JStr ''p2'') pen] =
      (Inl (UnhandledRejection (ValidationError
         [''name is a required field'', ''description is a required field'',
          ''price is a required field'', ''available is a required field''])),
       [fmupd ''productID'' (JStr ''p2'') pen])"
    by (simp add: rt_def)
qed

subsection \<open>Create, then read\<close>

text \<open>
  For a payload that passes the validation and has no \<^verbatim>\<open>productID\<close> property,
  \<open>createProduct\<close> returns status 201 with the payload to which the generated
  \<^verbatim>\<open>productID\<close> is added, and \<open>getProduct\<close> with that identifier on the table afterwards
  returns status 200 with the same record.
\<close>

lemma create_then_read_without_productID:
  assumes "JSON_parse rt (body_text event) = Inr payload"
    and "schema_validate schema False payload = Inr ()"
    and "fmlookup (own_props payload) ''productID'' = None"
    and "path_id event' = JStr v4"
  shows "\<exists>product tbl'.
    createProduct rt v4 event tbl =
      (Inr \<lparr>statusCode = 201, headers = Some headers, body = JSON_stringify rt (JObj product)\<rparr>, tbl') \<and>
    getProduct rt event' tbl' =
      (Inr \<lparr>statusCode = 200, headers = Some headers, body = JSON_stringify rt (JObj product)\<rparr>, tbl') \<and>
    product = fmupd ''productID'' (JStr v4) (own_props payload) \<and>
    payload = JObj (own_props payload) \<and>
    tbl' = filter (\<lambda>x. \<not> has_key v4 x) tbl @ [product] \<and>
    list_all (\<lambda>f. get_prop (JObj product) f = get_prop payload f)
      [''name'', ''description'', ''price'', ''available'']"
proof -
  obtain p where p: "payload = JObj p" using assms(2) by (rule valid_is_object)
  define product where "product = fmupd ''productID'' (JStr v4) fmempty ++\<^sub>f own_props payload"
  define tbl' where "tbl' = filter (\<lambda>x. \<not> has_key v4 x) tbl @ [product]"
  have prod_eq: "product = fmupd ''productID'' (JStr v4) (own_props payload)"
    unfolding product_def
    by (rule fmap_ext) (use assms(3) in \<open>auto simp: fmdom_notI\<close>)
  have hk: "has_key v4 product" by (simp add: has_key_def prod_eq)
  have put: "docClient_put tbl product = Inr tbl'"
    by (simp add: docClient_put_def prod_eq tbl'_def)
  have c: "createProduct rt v4 event tbl =
      (Inr \<lparr>statusCode = 201, headers = Some headers, body = JSON_stringify rt (JObj product)\<rparr>, tbl')"
    using assms(1,2) put by (simp add: createProduct_def product_def Let_def)
  have f: "find (has_key v4) tbl' = Some product"
    unfolding tbl'_def using hk by (rule find_after_put)
  have g: "getProduct rt event' tbl' =
      (Inr \<lparr>statusCode = 200, headers = Some headers, body = JSON_stringify rt (JObj product)\<rparr>, tbl')"
    using assms(4) f by (simp add: getProduct_def fetch_present)
  have fields: "list_all (\<lambda>f. get_prop (JObj product) f = get_prop payload f)
      [''name'', ''description'', ''price'', ''available'']"
    by (simp add: prod_eq p)
  have obj: "payload = JObj (own_props payload)" by (simp add: p)
  from c g prod_eq obj tbl'_def fields show ?thesis by blast
qed

text \<open>
  C7. The claim: for every valid product payload, create and then read with the id
  that create returned yields status 200 with a record that has the name, description,
  price and available of the payload, with a generated \<^verbatim>\<open>productID\<close> added. The four
  values do come back, but for a valid payload that carries a string \<^verbatim>\<open>productID\<close> of its
  own no generated identifier is added: the payload overwrites it, the 201 body and
  the stored record are the payload itself, and the read with the id create returned
  gives back the payload, under the caller's \<^verbatim>\<open>productID\<close>.
\<close>

theorem create_then_read_payload_productID:
  assumes "JSON_parse rt (body_text event) = Inr payload"
    and "schema_validate schema False payload = Inr ()"
    and "get_prop payload ''productID'' = JStr k"
    and "path_id event' = JStr k"
  shows "\<exists>tbl'.
    createProduct rt v4 event tbl =
      (Inr \<lparr>statusCode = 201, headers = Some headers, body = JSON_stringify rt payload\<rparr>, tbl') \<and>
    getProduct rt event' tbl' =
      (Inr \<lparr>statusCode = 200, headers = Some headers, body = JSON_stringify rt payload\<rparr>, tbl') \<and>
    tbl' = filter (\<lambda>x. \<not> has_key k x) tbl @ [own_props payload]"
proof -
  obtain p where p: "payload = JObj p" using assms(2) by (rule valid_is_object)
  define tbl' where "tbl' = filter (\<lambda>x. \<not> has_key k x) tbl @ [p]"
  have pid: "fmlookup p ''productID'' = Some (JStr k)"
    using assms(3) by (simp add: p split: option.splits)
  have product: "fmupd ''productID'' (JStr v4) fmempty ++\<^sub>f p = p"
    by (rule fmap_ext) (use pid in \<open>auto simp: fmdomI\<close>)
  have put: "docClient_put tbl p = Inr tbl'"
    using pid by (simp add: docClient_put_def tbl'_def)
  have c: "createProduct rt v4 event tbl =
      (Inr \<lparr>statusCode = 201, headers = Some headers, body = JSON_stringify rt payload\<rparr>, tbl')"
    using assms(1,2) put by (simp add: createProduct_def product p)
  have hk: "has_key k p" using pid by (simp add: has_key_def)
  have f: "find (has_key k) tbl' = Some p"
    unfolding tbl'_def using hk by (rule find_after_put)
  have g: "getProduct rt event' tbl' =
      (Inr \<lparr>statusCode = 200, headers = Some headers, body = JSON_stringify rt payload\<rparr>, tbl')"
    using assms(4) f by (simp add: getProduct_def fetch_present p)
  have t: "tbl' = filter (\<lambda>x. \<not> has_key k x) tbl @ [own_props payload]"
    by (simp add: tbl'_def p)
  from c g t show ?thesis by blast
qed

theorem create_then_read_payload_productID_witness:
  "\<forall>str.
    createProduct \<lparr>JSON_parse = example_parse, JSON_stringify = str\<rparr> ''generated''
      \<lparr>APIGatewayProxyEvent.body = Some pen_mine_body, pathParameters = None\<rparr> [] =
      (Inr \<lparr>statusCode = 201, headers = Some headers,
            body = str (JObj (fmupd ''productID'' (JStr ''mine'') pen))\<rparr>,
       [fmupd ''productID'' (JStr ''mine'') pen]) \<and>
    getProduct \<lparr>JSON_parse = example_parse, JSON_stringify = str\<rparr> (request None ''mine'')
      [fmupd ''productID'' (JStr ''mine'') pen] =
      (Inr \<lparr>statusCode = 200, headers = Some headers,
            body = str (JObj (fmupd ''productID'' (JStr ''mine'') pen))\<rparr>,
       [fmupd ''productID'' (JStr ''mine'') pen]) \<and>
    getProduct \<lparr>JSON_parse = example_parse, JSON_stringify = str\<rparr> (request None ''generated'')
      [fmupd ''productID'' (JStr ''mine'') pen] =
      (Inr \<lparr>statusCode = 200, headers = Some headers, body = str JUndefined\<rparr>,
       [fmupd ''productID'' (JStr ''mine'') pen])"
proof
  fix str
  define rt where "rt = \<lparr>JSON_parse = example_parse, JSON_stringify = str\<rparr>"
  define payload where "payload = JObj (fmupd ''productID'' (JStr ''mine'') pen)"
  define event where "event = \<lparr>APIGatewayProxyEvent.body = Some pen_mine_body, pathParameters = None\<rparr>"
  have parse: "JSON_parse rt (body_text event) = Inr payload"
    by (simp add: rt_def event_def body_text_def example_parse_def payload_def pen_body_def
        pen_mine_body_def)
  have valid: "schema_validate schema False payload = Inr ()"
    by (simp add: schema_validate_def schema_errors_def schema_def payload_def pen_def)
  have pid: "get_prop payload ''productID'' = JStr ''mine''"
    by (simp add: payload_def)
  have absent: "find (has_key ''generated'') [fmupd ''productID'' (JStr ''mine'') pen] = None"
    by (simp add: has_key_def)
  have other: "getProduct rt (request None ''generated'') [fmupd ''productID'' (JStr ''mine'') pen] =
      (Inr \<lparr>statusCode = 200, headers = Some headers, body = JSON_stringify rt JUndefined\<rparr>,
       [fmupd ''productID'' (JStr ''mine'') pen])"
    by (simp add: getProduct_def path_id_request fetch_absent [OF absent] new_HttpError_def
        handleError_HttpError)
  from create_then_read_payload_productID
    [OF parse valid pid path_id_request [of None "''mine''"], where tbl = "[]" and ?v4.0 = "''generated''"]
    other
  show "createProduct \<lparr>JSON_parse = example_parse, JSON_stringify = str\<rparr> ''generated''
      \<lparr>APIGatewayProxyEvent.body = Some pen_mine_body, pathParameters = None\<rparr> [] =
      (Inr \<lparr>statusCode = 201, headers = Some headers,
            body = str (JObj (fmupd ''productID'' (JStr ''mine'') pen))\<rparr>,
       [fmupd ''productID'' (JStr ''mine'') pen]) \<and>
    getProduct \<lparr>JSON_parse = example_parse, JSON_stringify = str\<rparr> (request None ''mine'')
      [fmupd ''productID'' (JStr ''mine'') pen] =
      (Inr \<lparr>statusCode = 200, headers = Some headers,
            body = str (JObj (fmupd ''productID'' (JStr ''mine'') pen))\<rparr>,
       [fmupd ''productID'' (JStr ''mine'') pen]) \<and>
    getProduct \<lparr>JSON_parse = example_parse, JSON_stringify = str\<rparr> (request None ''generated'')
      [fmupd ''productID'' (JStr ''mine'') pen] =
      (Inr \<lparr>statusCode = 200, headers = Some headers, body = str JUndefined\<rparr>,
       [fmupd ''productID'' (JStr ''mine'') pen])"
    by (auto simp: rt_def event_def payload_def)
qed

end
